theory Spec2Isabelle
  imports Main "HOL-Library.Sublist"
begin

section \<open>JavaScript values\<close>

text \<open>
  Both programs of the repository (\<^verbatim>\<open>index.js\<close>, the Tool Host, and \<^verbatim>\<open>backend.js\<close>, the
  Bridge Service) handle JSON-shaped JavaScript values: request bodies, tool arguments, tool
  results, chat messages and completions. They are modelled by one datatype.

  \<^item> An object is the list of its own properties in insertion order; a property read takes the
    first binding of the key. Members inherited from prototypes are not modelled: of the keys
    the sources read, only \<^verbatim>\<open>length\<close> is one, and it is written out below.
  \<^item> A number is an integer. Fractions, \<^verbatim>\<open>NaN\<close> and the infinities have no representation, and
    the decimal rendering below is the one of JavaScript for magnitudes below \<open>10^21\<close>.
  \<^item> A string is a list of characters, each standing for one code point.
\<close>

datatype jsval =
    JUndefined
  | JNull
  | JBool bool
  | JNum int
  | JStr string
  | JArr "jsval list"
  | JObj "(string \<times> jsval) list"

text \<open>
  Thrown values. Every error the programs raise or catch carries a message. Where the
  language itself throws, the model spells the message as V8 does in the usual cases; no
  property below depends on such a text.
\<close>

datatype error =
    Error string
  | TypeError string
  | SyntaxError string

fun message :: "error \<Rightarrow> string" where
  "message (Error m) = m"
| "message (TypeError m) = m"
| "message (SyntaxError m) = m"

text \<open>Truthiness, as tested by \<^verbatim>\<open>!x\<close>, \<^verbatim>\<open>x || y\<close>, \<^verbatim>\<open>x && y\<close> and \<^verbatim>\<open>if (x)\<close>.\<close>

fun truthy :: "jsval \<Rightarrow> bool" where
  "truthy JUndefined = False"
| "truthy JNull = False"
| "truthy (JBool b) = b"
| "truthy (JNum n) = (n \<noteq> 0)"
| "truthy (JStr s) = (s \<noteq> [])"
| "truthy (JArr xs) = True"
| "truthy (JObj kvs) = True"

text \<open>\<^verbatim>\<open>x || y\<close>\<close>

definition js_or :: "jsval \<Rightarrow> jsval \<Rightarrow> jsval" where
  "js_or x y = (if truthy x then x else y)"

text \<open>
  Decimal rendering of numbers (\<^verbatim>\<open>Number::toString\<close> on integers): \<open>decimal n acc\<close> puts the
  digits of \<open>n\<close> in front of \<open>acc\<close>.
\<close>

definition digit :: "nat \<Rightarrow> char" where
  "digit d = ''0123456789'' ! d"

fun decimal :: "nat \<Rightarrow> string \<Rightarrow> string" where
  "decimal n acc =
     (if n < 10 then digit n # acc else decimal (n div 10) (digit (n mod 10) # acc))"

definition number_to_string :: "int \<Rightarrow> string" where
  "number_to_string n =
     (if 0 \<le> n then decimal (nat n) [] else CHR ''-'' # decimal (nat (- n)) [])"

text \<open>\<^verbatim>\<open>Array.prototype.join\<close> on already rendered elements.\<close>

fun join_with :: "string \<Rightarrow> string list \<Rightarrow> string" where
  "join_with sep [] = []"
| "join_with sep [x] = x"
| "join_with sep (x # y # ys) = x @ sep @ join_with sep (y # ys)"

text \<open>
  \<^verbatim>\<open>ToString\<close>, as applied by a template literal \<^verbatim>\<open>`${x}`\<close>. An array joins its elements
  with commas, rendering \<^verbatim>\<open>undefined\<close> and \<^verbatim>\<open>null\<close> elements as empty.
\<close>

fun to_string :: "jsval \<Rightarrow> string" where
  "to_string JUndefined = ''undefined''"
| "to_string JNull = ''null''"
| "to_string (JBool b) = (if b then ''true'' else ''false'')"
| "to_string (JNum n) = number_to_string n"
| "to_string (JStr s) = s"
| "to_string (JArr xs) =
     join_with '','' (map (\<lambda>x. if x = JUndefined \<or> x = JNull then [] else to_string x) xs)"
| "to_string (JObj kvs) = ''[object Object]''"

text \<open>
  Property read \<^verbatim>\<open>x.k\<close>. Reading a property of \<^verbatim>\<open>undefined\<close> or \<^verbatim>\<open>null\<close> throws a
  \<^verbatim>\<open>TypeError\<close> (message text of V8); a missing property reads as \<^verbatim>\<open>undefined\<close>.
\<close>

fun get_prop :: "jsval \<Rightarrow> string \<Rightarrow> error + jsval" where
  "get_prop JUndefined k =
     Inl (TypeError (''Cannot read properties of undefined (reading '' @ [CHR 0x27] @ k @ [CHR 0x27] @ '')''))"
| "get_prop JNull k =
     Inl (TypeError (''Cannot read properties of null (reading '' @ [CHR 0x27] @ k @ [CHR 0x27] @ '')''))"
| "get_prop (JObj kvs) k = Inr (case map_of kvs k of None \<Rightarrow> JUndefined | Some v \<Rightarrow> v)"
| "get_prop (JArr xs) k = Inr (if k = ''length'' then JNum (int (length xs)) else JUndefined)"
| "get_prop (JStr s) k = Inr (if k = ''length'' then JNum (int (length s)) else JUndefined)"
| "get_prop (JBool b) k = Inr JUndefined"
| "get_prop (JNum n) k = Inr JUndefined"

text \<open>Indexed read \<^verbatim>\<open>x[i]\<close> with a number literal \<open>i\<close>.\<close>

fun get_index :: "jsval \<Rightarrow> nat \<Rightarrow> error + jsval" where
  "get_index (JArr xs) i = Inr (if i < length xs then xs ! i else JUndefined)"
| "get_index (JStr s) i = Inr (if i < length s then JStr [s ! i] else JUndefined)"
| "get_index v i = get_prop v (decimal i [])"

text \<open>
  Iteration by \<^verbatim>\<open>for (const x of v)\<close> and by spread \<^verbatim>\<open>[...v]\<close>: arrays yield their elements,
  strings their characters, anything else is not iterable. The first argument is the source
  text of the iterated expression, which the error message quotes.
\<close>

fun iterate :: "string \<Rightarrow> jsval \<Rightarrow> error + jsval list" where
  "iterate src (JArr xs) = Inr xs"
| "iterate src (JStr s) = Inr (map (\<lambda>c. JStr [c]) s)"
| "iterate src v = Inl (TypeError (src @ '' is not iterable''))"

text \<open>
  Object destructuring \<^verbatim>\<open>const { k } = v\<close>: a property read, except that \<^verbatim>\<open>undefined\<close> and
  \<^verbatim>\<open>null\<close> are refused with the message of destructuring. The first argument is the source
  text of \<open>v\<close>.
\<close>

definition destructure :: "string \<Rightarrow> jsval \<Rightarrow> string \<Rightarrow> error + jsval" where
  "destructure src v k =
     (if v = JUndefined \<or> v = JNull then
        Inl (TypeError (''Cannot destructure property '' @ [CHR 0x27] @ k @ [CHR 0x27] @ '' of ''
               @ [CHR 0x27] @ src @ [CHR 0x27] @ '' as it is '' @ to_string v @ ''.''))
      else get_prop v k)"

section \<open>The Tool Host (\<^verbatim>\<open>index.js\<close>)\<close>

text \<open>The handler registered for \<^verbatim>\<open>ListToolsRequestSchema\<close>: the fixed catalog.\<close>

definition list_tools :: jsval where
  "list_tools =
     JObj [(''tools'', JArr [
       JObj [(''name'', JStr ''echo''),
             (''description'', JStr ''Echo back the input message''),
             (''inputSchema'', JObj [
                (''type'', JStr ''object''),
                (''properties'', JObj [
                   (''message'', JObj [
                      (''type'', JStr ''string''),
                      (''description'', JStr ''The message to echo back'')])]),
                (''required'', JArr [JStr ''message''])])]])]"

text \<open>The names the catalog advertises.\<close>

definition catalog_names :: "jsval list" where
  "catalog_names =
     (case get_prop list_tools ''tools'' of
        Inr (JArr ts) \<Rightarrow> map (\<lambda>t. case get_prop t ''name'' of Inr n \<Rightarrow> n | Inl e \<Rightarrow> JUndefined) ts
      | _ \<Rightarrow> [])"

text \<open>
  The handler registered for \<^verbatim>\<open>CallToolRequestSchema\<close>; its argument is \<^verbatim>\<open>request.params\<close>.
  \<^verbatim>\<open>
  const { name, arguments: args } = request.params;
  if (name === "echo") {
    return { content: [ { type: "text", text: `Echo: ${args.message}` } ] };
  }
  throw new Error(`Unknown tool: ${name}`);
  \<close>
\<close>

definition call_tool :: "jsval \<Rightarrow> error + jsval" where
  "call_tool params =
     (case destructure ''request.params'' params ''name'' of Inl e \<Rightarrow> Inl e | Inr name \<Rightarrow>
     (case destructure ''request.params'' params ''arguments'' of Inl e \<Rightarrow> Inl e | Inr args \<Rightarrow>
        if name = JStr ''echo'' then
          (case get_prop args ''message'' of Inl e \<Rightarrow> Inl e | Inr m \<Rightarrow>
             Inr (JObj [(''content'', JArr [
                    JObj [(''type'', JStr ''text''), (''text'', JStr (''Echo: '' @ to_string m))]])]))
        else Inl (Error (''Unknown tool: '' @ to_string name))))"

section \<open>The Bridge Service (\<^verbatim>\<open>backend.js\<close>)\<close>

subsection \<open>The world outside the handlers\<close>

text \<open>
  The objects the Bridge Service constructs to reach the Tool Host. They are opaque outside
  the libraries; the model keeps the constructor arguments.
\<close>

datatype transport = StdioClientTransport jsval

datatype client = Client jsval jsval

text \<open>
  What a handler does to the outside, with the outcome it got: opening the channel, the two
  operations of the Tool Host, and a completion request to the LLM backend. A thrown or
  rejected call is an \<open>Inl\<close> outcome (\<open>Some\<close> for \<^verbatim>\<open>connect\<close>, which has no value).
\<close>

datatype event =
    Connect client transport "error option"
  | ListTools "error + jsval"
  | CallTool jsval "error + jsval"
  | ChatCompletion jsval "error + jsval"

text \<open>
  Everything the handlers take from their surroundings. The library calls that leave the
  process answer as a function of all events so far, so that the same request may be
  answered differently each time. Console output is not modelled.

  \<^item> \<open>process_env\<close>: \<^verbatim>\<open>process.env\<close>; \<open>dirname\<close>: \<^verbatim>\<open>__dirname\<close>; \<open>join\<close>: \<^verbatim>\<open>path.join\<close>.
  \<^item> \<open>new_StdioClientTransport\<close>, \<open>new_Client\<close>: whether the constructor throws.
  \<^item> \<open>connect\<close>, \<open>listTools\<close>, \<open>callTool\<close>: the methods of the MCP client.
  \<^item> \<open>create\<close>: \<^verbatim>\<open>openai.chat.completions.create\<close>.
  \<^item> \<open>JSON_parse\<close>, \<open>JSON_stringify\<close>: the built-ins; \<^verbatim>\<open>JSON.stringify\<close> yields a string or
    \<^verbatim>\<open>undefined\<close>.
  \<^item> \<open>string_gt_zero\<close>: the comparison \<^verbatim>\<open>s > 0\<close> of the language for a string \<open>s\<close>.
\<close>

record platform =
  process_env :: "(string \<times> string) list"
  dirname :: string
  join :: "string list \<Rightarrow> string"
  new_StdioClientTransport :: "jsval \<Rightarrow> error option"
  new_Client :: "jsval \<Rightarrow> jsval \<Rightarrow> error option"
  connect :: "event list \<Rightarrow> client \<Rightarrow> transport \<Rightarrow> error option"
  listTools :: "event list \<Rightarrow> client \<Rightarrow> error + jsval"
  callTool :: "event list \<Rightarrow> client \<Rightarrow> jsval \<Rightarrow> error + jsval"
  create :: "event list \<Rightarrow> jsval \<Rightarrow> error + jsval"
  JSON_parse :: "jsval \<Rightarrow> error + jsval"
  JSON_stringify :: "jsval \<Rightarrow> jsval"
  string_gt_zero :: "string \<Rightarrow> bool"

text \<open>
  The module-level variables \<^verbatim>\<open>mcpClient\<close> and \<^verbatim>\<open>mcpTransport\<close> (\<open>None\<close> is \<^verbatim>\<open>null\<close>), and
  the events so far, oldest first. The model runs one handler at a time.
\<close>

record state =
  mcpClient :: "client option"
  mcpTransport :: "transport option"
  trace :: "event list"

text \<open>
  The module as loaded: \<^verbatim>\<open>let mcpClient = null; let mcpTransport = null;\<close> and no event yet.
\<close>

definition initial_state :: state where
  "initial_state = \<lparr> mcpClient = None, mcpTransport = None, trace = [] \<rparr>"

text \<open>The comparison \<^verbatim>\<open>x > 0\<close>: \<open>x\<close> is converted to a number first.\<close>

fun js_gt_zero :: "platform \<Rightarrow> jsval \<Rightarrow> bool" where
  "js_gt_zero P JUndefined = False"
| "js_gt_zero P JNull = False"
| "js_gt_zero P (JBool b) = b"
| "js_gt_zero P (JNum n) = (0 < n)"
| "js_gt_zero P (JStr s) = string_gt_zero P s"
| "js_gt_zero P (JArr xs) = string_gt_zero P (to_string (JArr xs))"
| "js_gt_zero P (JObj kvs) = False"

text \<open>\<^verbatim>\<open>const OPENAI_API_KEY = process.env.OPENAI_API_KEY || "None";\<close>\<close>

definition OPENAI_API_KEY :: "platform \<Rightarrow> jsval" where
  "OPENAI_API_KEY P =
     js_or (case map_of (process_env P) ''OPENAI_API_KEY'' of None \<Rightarrow> JUndefined | Some k \<Rightarrow> JStr k)
           (JStr ''None'')"

subsection \<open>Connecting to the Tool Host\<close>

text \<open>The constructor arguments in \<^verbatim>\<open>initMCPClient\<close>.\<close>

definition transport_params :: "platform \<Rightarrow> jsval" where
  "transport_params P =
     (let pythonPath = join P [dirname P, ''venv'', ''bin'', ''python''];
          serverPath = join P [dirname P, ''server.py'']
      in JObj [(''command'', JStr pythonPath),
               (''args'', JArr [JStr serverPath]),
               (''env'', JObj (map (\<lambda>(k, v). (k, JStr v)) (process_env P)))])"

definition client_info :: jsval where
  "client_info = JObj [(''name'', JStr ''chatbot-client''), (''version'', JStr ''1.0.0'')]"

definition client_options :: jsval where
  "client_options = JObj [(''capabilities'', JObj [])]"

text \<open>
  \<^verbatim>\<open>initMCPClient\<close>. Each assignment to a module variable happens when its constructor has
  returned; the \<^verbatim>\<open>catch\<close> block rethrows what it caught.
  \<^verbatim>\<open>
  mcpTransport = new StdioClientTransport({ command: pythonPath, args: [serverPath], env: process.env });
  mcpClient = new Client({ name: 'chatbot-client', version: '1.0.0' }, { capabilities: {} });
  await mcpClient.connect(mcpTransport);
  \<close>
\<close>

definition initMCPClient :: "platform \<Rightarrow> state \<Rightarrow> (error + unit) \<times> state" where
  "initMCPClient P s =
     (case new_StdioClientTransport P (transport_params P) of
        Some e \<Rightarrow> (Inl e, s)
      | None \<Rightarrow>
          let t = StdioClientTransport (transport_params P);
              s1 = s\<lparr>mcpTransport := Some t\<rparr>
          in (case new_Client P client_info client_options of
                Some e \<Rightarrow> (Inl e, s1)
              | None \<Rightarrow>
                  let c = Client client_info client_options;
                      s2 = s1\<lparr>mcpClient := Some c\<rparr>;
                      out = connect P (trace s2) c t;
                      s3 = s2\<lparr>trace := trace s2 @ [Connect c t out]\<rparr>
                  in (case out of Some e \<Rightarrow> (Inl e, s3) | None \<Rightarrow> (Inr (), s3))))"

text \<open>\<^verbatim>\<open>if (!mcpClient) { await initMCPClient(); }\<close>\<close>

definition ensure_client :: "platform \<Rightarrow> state \<Rightarrow> (error + unit) \<times> state" where
  "ensure_client P s = (case mcpClient s of None \<Rightarrow> initMCPClient P s | Some c \<Rightarrow> (Inr (), s))"

text \<open>\<^verbatim>\<open>await mcpClient.listTools()\<close> and \<^verbatim>\<open>await mcpClient.callTool(req)\<close>\<close>

definition client_listTools :: "platform \<Rightarrow> state \<Rightarrow> (error + jsval) \<times> state" where
  "client_listTools P s =
     (case mcpClient s of
        None \<Rightarrow> (Inl (TypeError (''Cannot read properties of null (reading '' @ [CHR 0x27]
                       @ ''listTools'' @ [CHR 0x27] @ '')'')), s)
      | Some c \<Rightarrow>
          let out = listTools P (trace s) c
          in (out, s\<lparr>trace := trace s @ [ListTools out]\<rparr>))"

definition client_callTool :: "platform \<Rightarrow> state \<Rightarrow> jsval \<Rightarrow> (error + jsval) \<times> state" where
  "client_callTool P s req =
     (case mcpClient s of
        None \<Rightarrow> (Inl (TypeError (''Cannot read properties of null (reading '' @ [CHR 0x27]
                       @ ''callTool'' @ [CHR 0x27] @ '')'')), s)
      | Some c \<Rightarrow>
          let out = callTool P (trace s) c req
          in (out, s\<lparr>trace := trace s @ [CallTool req out]\<rparr>))"

subsection \<open>HTTP responses\<close>

text \<open>
  A response is its status and the value handed to \<^verbatim>\<open>res.json\<close>. Every handler body runs in
  a \<^verbatim>\<open>try\<close> whose \<^verbatim>\<open>catch\<close> answers \<^verbatim>\<open>res.status(500).json({ error: error.message })\<close>.
\<close>

datatype http_response = Response nat jsval

definition respond :: "(error + jsval) \<times> state \<Rightarrow> http_response \<times> state" where
  "respond r =
     (case r of
        (Inr v, s) \<Rightarrow> (Response 200 v, s)
      | (Inl e, s) \<Rightarrow> (Response 500 (JObj [(''error'', JStr (message e))]), s))"

text \<open>The argument of \<^verbatim>\<open>mcpClient.callTool\<close>: \<^verbatim>\<open>{ name: ..., arguments: ... }\<close>.\<close>

definition call_request :: "jsval \<Rightarrow> jsval \<Rightarrow> jsval" where
  "call_request toolName toolArgs = JObj [(''name'', toolName), (''arguments'', toolArgs)]"

subsection \<open>\<^verbatim>\<open>GET /api/health\<close>\<close>

definition health_handler :: "platform \<Rightarrow> state \<Rightarrow> http_response" where
  "health_handler P s =
     Response 200 (JObj [
       (''status'', JStr ''ok''),
       (''connected'', JBool (mcpClient s \<noteq> None)),
       (''openaiConfigured'', JBool (truthy (OPENAI_API_KEY P) \<and> OPENAI_API_KEY P \<noteq> JStr []))])"

subsection \<open>\<^verbatim>\<open>GET /api/tools\<close>\<close>

definition tools_body :: "platform \<Rightarrow> state \<Rightarrow> (error + jsval) \<times> state" where
  "tools_body P s =
     (case ensure_client P s of (Inl e, s1) \<Rightarrow> (Inl e, s1) | (Inr u, s1) \<Rightarrow>
        client_listTools P s1)"

definition tools_handler :: "platform \<Rightarrow> state \<Rightarrow> http_response \<times> state" where
  "tools_handler P s = respond (tools_body P s)"

subsection \<open>\<^verbatim>\<open>POST /api/tools/call\<close>\<close>

definition tools_call_body :: "platform \<Rightarrow> state \<Rightarrow> jsval \<Rightarrow> (error + jsval) \<times> state" where
  "tools_call_body P s body =
     (case destructure ''req.body'' body ''name'' of Inl e \<Rightarrow> (Inl e, s) | Inr name \<Rightarrow>
     (case destructure ''req.body'' body ''arguments'' of Inl e \<Rightarrow> (Inl e, s) | Inr args \<Rightarrow>
     (case ensure_client P s of (Inl e, s1) \<Rightarrow> (Inl e, s1) | (Inr u, s1) \<Rightarrow>
        client_callTool P s1 (call_request name (js_or args (JObj []))))))"

definition tools_call_handler :: "platform \<Rightarrow> state \<Rightarrow> jsval \<Rightarrow> http_response \<times> state" where
  "tools_call_handler P s body = respond (tools_call_body P s body)"

subsection \<open>Catalog translation\<close>

text \<open>
  The callback of \<^verbatim>\<open>convertMCPToolsToOpenAI\<close>:
  \<^verbatim>\<open>
  tool => ({ type: 'function',
             function: { name: tool.name,
                         description: tool.description || '',
                         parameters: tool.inputSchema || {} } })
  \<close>
\<close>

definition convert_tool :: "jsval \<Rightarrow> error + jsval" where
  "convert_tool tool =
     (case get_prop tool ''name'' of Inl e \<Rightarrow> Inl e | Inr name \<Rightarrow>
     (case get_prop tool ''description'' of Inl e \<Rightarrow> Inl e | Inr description \<Rightarrow>
     (case get_prop tool ''inputSchema'' of Inl e \<Rightarrow> Inl e | Inr inputSchema \<Rightarrow>
        Inr (JObj [(''type'', JStr ''function''),
                   (''function'', JObj [
                      (''name'', name),
                      (''description'', js_or description (JStr [])),
                      (''parameters'', js_or inputSchema (JObj []))])]))))"

text \<open>\<^verbatim>\<open>Array.prototype.map\<close> with a callback that may throw: the first throw ends the call.\<close>

fun map_result :: "('a \<Rightarrow> error + 'b) \<Rightarrow> 'a list \<Rightarrow> error + 'b list" where
  "map_result f [] = Inr []"
| "map_result f (x # xs) =
     (case f x of Inl e \<Rightarrow> Inl e | Inr y \<Rightarrow>
     (case map_result f xs of Inl e \<Rightarrow> Inl e | Inr ys \<Rightarrow> Inr (y # ys)))"

text \<open>
  \<^verbatim>\<open>convertMCPToolsToOpenAI(mcpTools)\<close>, that is \<^verbatim>\<open>mcpTools.tools.map(...)\<close>. Only an array has
  a \<^verbatim>\<open>map\<close> method; the result is the list of elements of the new array.
\<close>

definition convertMCPToolsToOpenAI :: "jsval \<Rightarrow> error + jsval list" where
  "convertMCPToolsToOpenAI mcpTools =
     (case get_prop mcpTools ''tools'' of Inl e \<Rightarrow> Inl e | Inr tools \<Rightarrow>
     (case tools of
        JArr ts \<Rightarrow> map_result convert_tool ts
      | _ \<Rightarrow>
         (case get_prop tools ''map'' of Inl e \<Rightarrow> Inl e | Inr m \<Rightarrow>
            Inl (TypeError ''mcpTools.tools.map is not a function''))))"

subsection \<open>\<^verbatim>\<open>POST /api/chat\<close>\<close>

text \<open>
  The handler up to its first request to the LLM backend: destructuring of the body with the
  default for \<^verbatim>\<open>history\<close>, the client, the catalog and its translation, and the message list.
  The result is the message list and the function declarations.
\<close>

definition system_turn :: jsval where
  "system_turn =
     JObj [(''role'', JStr ''system''),
           (''content'', JStr ''You are a helpful assistant that can use tools to help users. When you need to use a tool, call it with the appropriate parameters.'')]"

definition chat_prepare ::
  "platform \<Rightarrow> state \<Rightarrow> jsval \<Rightarrow> (error + (jsval list \<times> jsval list)) \<times> state" where
  "chat_prepare P s body =
     (case destructure ''req.body'' body ''message'' of Inl e \<Rightarrow> (Inl e, s) | Inr msg \<Rightarrow>
     (case destructure ''req.body'' body ''history'' of Inl e \<Rightarrow> (Inl e, s) | Inr h \<Rightarrow>
      let history = (if h = JUndefined then JArr [] else h) in
     (case ensure_client P s of (Inl e, s1) \<Rightarrow> (Inl e, s1) | (Inr u, s1) \<Rightarrow>
     (case client_listTools P s1 of (Inl e, s2) \<Rightarrow> (Inl e, s2) | (Inr mcpTools, s2) \<Rightarrow>
     (case convertMCPToolsToOpenAI mcpTools of Inl e \<Rightarrow> (Inl e, s2) | Inr functions \<Rightarrow>
     (case iterate ''history'' history of Inl e \<Rightarrow> (Inl e, s2) | Inr hs \<Rightarrow>
        (Inr ([system_turn] @ hs @ [JObj [(''role'', JStr ''user''), (''content'', msg)]],
              functions), s2)))))))"

text \<open>The argument of the first \<^verbatim>\<open>openai.chat.completions.create\<close>.\<close>

definition first_request :: "jsval list \<Rightarrow> jsval list \<Rightarrow> jsval" where
  "first_request messages functions =
     JObj [(''model'', JStr ''gpt-4o-mini''),
           (''messages'', JArr messages),
           (''tools'', if 0 < length functions then JArr functions else JUndefined),
           (''tool_choice'', if 0 < length functions then JStr ''auto'' else JUndefined)]"

text \<open>The argument of the follow-up call.\<close>

definition follow_up_request :: "jsval list \<Rightarrow> jsval" where
  "follow_up_request followUpMessages =
     JObj [(''model'', JStr ''gpt-4o-mini''), (''messages'', JArr followUpMessages)]"

text \<open>\<^verbatim>\<open>await openai.chat.completions.create(req)\<close>\<close>

definition openai_create :: "platform \<Rightarrow> state \<Rightarrow> jsval \<Rightarrow> (error + jsval) \<times> state" where
  "openai_create P s req =
     (let out = create P (trace s) req
      in (out, s\<lparr>trace := trace s @ [ChatCompletion req out]\<rparr>))"

text \<open>\<^verbatim>\<open>completion.choices[0].message\<close>\<close>

definition first_message :: "jsval \<Rightarrow> error + jsval" where
  "first_message completion =
     (case get_prop completion ''choices'' of Inl e \<Rightarrow> Inl e | Inr choices \<Rightarrow>
     (case get_index choices 0 of Inl e \<Rightarrow> Inl e | Inr choice \<Rightarrow>
        get_prop choice ''message''))"

text \<open>
  The text taken from a tool result:
  \<^verbatim>\<open>
  let resultText = '';
  if (toolResult.content && toolResult.content.length > 0) {
    resultText = toolResult.content[0].text || JSON.stringify(toolResult.content[0]);
  } else {
    resultText = JSON.stringify(toolResult);
  }
  \<close>
\<close>

definition result_text :: "platform \<Rightarrow> jsval \<Rightarrow> error + jsval" where
  "result_text P toolResult =
     (case get_prop toolResult ''content'' of Inl e \<Rightarrow> Inl e | Inr content \<Rightarrow>
        if truthy content \<and>
           (case get_prop content ''length'' of Inl e \<Rightarrow> False | Inr n \<Rightarrow> js_gt_zero P n)
        then
          (case get_index content 0 of Inl e \<Rightarrow> Inl e | Inr block \<Rightarrow>
          (case get_prop block ''text'' of Inl e \<Rightarrow> Inl e | Inr t \<Rightarrow>
             Inr (js_or t (JSON_stringify P block))))
        else Inr (JSON_stringify P toolResult))"

text \<open>
  The head of a round of the loop \<^verbatim>\<open>for (const toolCall of assistantMessage.tool_calls)\<close>:
  \<^verbatim>\<open>
  const toolName = toolCall.function.name;
  const toolArgs = JSON.parse(toolCall.function.arguments || '{}');
  \<close>
\<close>

definition requested_call :: "platform \<Rightarrow> jsval \<Rightarrow> error + (jsval \<times> jsval)" where
  "requested_call P toolCall =
     (case get_prop toolCall ''function'' of Inl e \<Rightarrow> Inl e | Inr f \<Rightarrow>
     (case get_prop f ''name'' of Inl e \<Rightarrow> Inl e | Inr toolName \<Rightarrow>
     (case get_prop f ''arguments'' of Inl e \<Rightarrow> Inl e | Inr a \<Rightarrow>
     (case JSON_parse P (js_or a (JStr ''{}'')) of Inl e \<Rightarrow> Inl e | Inr toolArgs \<Rightarrow>
        Inr (toolName, toolArgs)))))"

text \<open>The object literals of a round: the tool turn and the record.\<close>

definition tool_turn :: "jsval \<Rightarrow> jsval \<Rightarrow> jsval \<Rightarrow> jsval" where
  "tool_turn tool_call_id toolName resultText =
     JObj [(''tool_call_id'', tool_call_id),
           (''role'', JStr ''tool''),
           (''name'', toolName),
           (''content'', resultText)]"

definition tool_record :: "jsval \<Rightarrow> jsval \<Rightarrow> jsval \<Rightarrow> jsval" where
  "tool_record toolName toolArgs resultText =
     JObj [(''name'', toolName), (''arguments'', toolArgs), (''result'', resultText)]"

text \<open>
  One round of the loop: the call to the Tool Host and the text of its result. It yields the
  tool turn pushed to \<^verbatim>\<open>toolResults\<close> and the record pushed to \<^verbatim>\<open>response.toolCalls\<close>.
\<close>

definition tool_round :: "platform \<Rightarrow> state \<Rightarrow> jsval \<Rightarrow> (error + (jsval \<times> jsval)) \<times> state" where
  "tool_round P s toolCall =
     (case requested_call P toolCall of Inl e \<Rightarrow> (Inl e, s) | Inr (toolName, toolArgs) \<Rightarrow>
     (case client_callTool P s (call_request toolName toolArgs) of
        (Inl e, s1) \<Rightarrow> (Inl e, s1)
      | (Inr toolResult, s1) \<Rightarrow>
     (case result_text P toolResult of Inl e \<Rightarrow> (Inl e, s1) | Inr resultText \<Rightarrow>
     (case get_prop toolCall ''id'' of Inl e \<Rightarrow> (Inl e, s1) | Inr tool_call_id \<Rightarrow>
        (Inr (tool_turn tool_call_id toolName resultText,
              tool_record toolName toolArgs resultText), s1)))))"

text \<open>
  The loop over the requested invocations, with \<^verbatim>\<open>toolResults\<close> and \<^verbatim>\<open>response.toolCalls\<close> as
  accumulators. A round that throws ends the loop.
\<close>

fun tool_loop ::
  "platform \<Rightarrow> state \<Rightarrow> jsval list \<Rightarrow> jsval list \<Rightarrow> jsval list
     \<Rightarrow> (error + (jsval list \<times> jsval list)) \<times> state" where
  "tool_loop P s [] toolResults toolCalls = (Inr (toolResults, toolCalls), s)"
| "tool_loop P s (toolCall # rest) toolResults toolCalls =
     (case tool_round P s toolCall of
        (Inl e, s1) \<Rightarrow> (Inl e, s1)
      | (Inr (turn, rec), s1) \<Rightarrow> tool_loop P s1 rest (toolResults @ [turn]) (toolCalls @ [rec]))"

text \<open>The handler from the first completion on.\<close>

definition chat_respond ::
  "platform \<Rightarrow> state \<Rightarrow> jsval list \<Rightarrow> jsval \<Rightarrow> (error + jsval) \<times> state" where
  "chat_respond P s messages completion =
     (case first_message completion of Inl e \<Rightarrow> (Inl e, s) | Inr assistantMessage \<Rightarrow>
     (case get_prop assistantMessage ''content'' of Inl e \<Rightarrow> (Inl e, s) | Inr content \<Rightarrow>
     (case get_prop assistantMessage ''tool_calls'' of Inl e \<Rightarrow> (Inl e, s) | Inr tool_calls \<Rightarrow>
        if truthy tool_calls \<and>
           (case get_prop tool_calls ''length'' of Inl e \<Rightarrow> False | Inr n \<Rightarrow> js_gt_zero P n)
        then
          (case iterate ''assistantMessage.tool_calls'' tool_calls of
             Inl e \<Rightarrow> (Inl e, s)
           | Inr tcs \<Rightarrow>
          (case tool_loop P s tcs [] [] of
             (Inl e, s1) \<Rightarrow> (Inl e, s1)
           | (Inr (toolResults, toolCalls), s1) \<Rightarrow>
          (case openai_create P s1
                  (follow_up_request (messages @ [assistantMessage] @ toolResults)) of
             (Inl e, s2) \<Rightarrow> (Inl e, s2)
           | (Inr followUpCompletion, s2) \<Rightarrow>
          (case first_message followUpCompletion of Inl e \<Rightarrow> (Inl e, s2) | Inr m \<Rightarrow>
          (case get_prop m ''content'' of Inl e \<Rightarrow> (Inl e, s2) | Inr c \<Rightarrow>
             (Inr (JObj [(''content'', js_or c (js_or content (JStr []))),
                         (''toolCalls'', JArr toolCalls)]), s2))))))
        else
          (Inr (JObj [(''content'', js_or content (JStr [])), (''toolCalls'', JArr [])]), s))))"

definition chat_body :: "platform \<Rightarrow> state \<Rightarrow> jsval \<Rightarrow> (error + jsval) \<times> state" where
  "chat_body P s body =
     (case chat_prepare P s body of
        (Inl e, s1) \<Rightarrow> (Inl e, s1)
      | (Inr (messages, functions), s1) \<Rightarrow>
     (case openai_create P s1 (first_request messages functions) of
        (Inl e, s2) \<Rightarrow> (Inl e, s2)
      | (Inr completion, s2) \<Rightarrow> chat_respond P s2 messages completion))"

definition chat_handler :: "platform \<Rightarrow> state \<Rightarrow> jsval \<Rightarrow> http_response \<times> state" where
  "chat_handler P s body = respond (chat_body P s body)"

subsection \<open>The running service\<close>

text \<open>
  \<^verbatim>\<open>initMCPClient\<close> in its two parts: what runs at once, up to the \<^verbatim>\<open>await\<close>, and the
  awaited \<^verbatim>\<open>connect\<close>. Other handlers may run between the two.
\<close>

definition construct_client :: "platform \<Rightarrow> state \<Rightarrow> (error + (client \<times> transport)) \<times> state" where
  "construct_client P s =
     (case new_StdioClientTransport P (transport_params P) of
        Some e \<Rightarrow> (Inl e, s)
      | None \<Rightarrow>
          let t = StdioClientTransport (transport_params P);
              s1 = s\<lparr>mcpTransport := Some t\<rparr>
          in (case new_Client P client_info client_options of
                Some e \<Rightarrow> (Inl e, s1)
              | None \<Rightarrow>
                  let c = Client client_info client_options
                  in (Inr (c, t), s1\<lparr>mcpClient := Some c\<rparr>)))"

definition await_connect ::
  "platform \<Rightarrow> state \<Rightarrow> client \<Rightarrow> transport \<Rightarrow> (error + unit) \<times> state" where
  "await_connect P s c t =
     (let out = connect P (trace s) c t;
          s3 = s\<lparr>trace := trace s @ [Connect c t out]\<rparr>
      in (case out of Some e \<Rightarrow> (Inl e, s3) | None \<Rightarrow> (Inr (), s3)))"

text \<open>The requests the service answers, and the handler of each.\<close>

datatype request = GetTools | PostToolsCall jsval | PostChat jsval | GetHealth

fun handle :: "platform \<Rightarrow> state \<Rightarrow> request \<Rightarrow> http_response \<times> state" where
  "handle P s GetTools = tools_handler P s"
| "handle P s (PostToolsCall body) = tools_call_handler P s body"
| "handle P s (PostChat body) = chat_handler P s body"
| "handle P s GetHealth = (health_handler P s, s)"

text \<open>Requests handled one after another; a handler runs to its end before the next.\<close>

fun serve :: "platform \<Rightarrow> state \<Rightarrow> request list \<Rightarrow> http_response list \<times> state" where
  "serve P s [] = ([], s)"
| "serve P s (r # rs) =
     (case handle P s r of (resp, s1) \<Rightarrow>
     (case serve P s1 rs of (resps, s2) \<Rightarrow> (resp # resps, s2)))"

text \<open>
  The start of the process:
  \<^verbatim>\<open>
  app.listen(PORT, async () => { console.log(...); await initMCPClient(); });
  \<close>
  The callback runs before any request is handled, so the first part of \<^verbatim>\<open>initMCPClient\<close>
  does; the requests \<open>early\<close> are handled while \<^verbatim>\<open>connect\<close> is awaited. Nothing handles the
  promise of the callback: when \<^verbatim>\<open>initMCPClient\<close> throws, the rejection is unhandled and Node
  ends the process. A request that gets no answer is \<open>None\<close>.
\<close>

datatype process = Running state | Exited

definition start_up :: "platform \<Rightarrow> request list \<Rightarrow> http_response option list \<times> process" where
  "start_up P early =
     (case construct_client P initial_state of
        (Inl e, s1) \<Rightarrow> (map (\<lambda>r. None) early, Exited)
      | (Inr (c, t), s2) \<Rightarrow>
     (case serve P s2 early of (resps, s3) \<Rightarrow>
     (case await_connect P s3 c t of
        (Inl e, s4) \<Rightarrow> (map Some resps, Exited)
      | (Inr u, s4) \<Rightarrow> (map Some resps, Running s4))))"

text \<open>
  The answers of the service to the requests \<open>early\<close>, which arrive while \<^verbatim>\<open>connect\<close> is
  awaited, and \<open>late\<close>, which arrive after it.
\<close>

definition service :: "platform \<Rightarrow> request list \<Rightarrow> request list \<Rightarrow> http_response option list" where
  "service P early late =
     (case start_up P early of
        (answers, Exited) \<Rightarrow> answers @ map (\<lambda>r. None) late
      | (answers, Running s) \<Rightarrow> answers @ map Some (fst (serve P s late)))"

text \<open>The answer of the health check with a given flag.\<close>

definition health_answer :: "bool \<Rightarrow> http_response" where
  "health_answer connected =
     Response 200 (JObj [(''status'', JStr ''ok''),
                         (''connected'', JBool connected),
                         (''openaiConfigured'', JBool True)])"

subsection \<open>Observing one exchange\<close>

text \<open>The events a handler added to the trace, given the state before and after.\<close>

definition new_events :: "state \<Rightarrow> state \<Rightarrow> event list" where
  "new_events s s' = drop (length (trace s)) (trace s')"

text \<open>
  The calls to the Tool Host's call operation and to the LLM backend among some events, in
  the order they were made.
\<close>

fun calls :: "event list \<Rightarrow> event list" where
  "calls [] = []"
| "calls (CallTool req out # es) = CallTool req out # calls es"
| "calls (ChatCompletion req out # es) = ChatCompletion req out # calls es"
| "calls (Connect c t out # es) = calls es"
| "calls (ListTools out # es) = calls es"

text \<open>The requests among them that went to the Tool Host's call operation.\<close>

fun tool_requests :: "event list \<Rightarrow> jsval list" where
  "tool_requests [] = []"
| "tool_requests (CallTool req out # es) = req # tool_requests es"
| "tool_requests (ChatCompletion req out # es) = tool_requests es"
| "tool_requests (Connect c t out # es) = tool_requests es"
| "tool_requests (ListTools out # es) = tool_requests es"

text \<open>
  One invocation as the loop performed it: the identifier, name and parsed arguments of the
  request of the LLM backend, the result the Tool Host returned, and the text taken from it.
\<close>

record invocation =
  inv_id :: jsval
  inv_name :: jsval
  inv_arguments :: jsval
  inv_result :: jsval
  inv_text :: jsval

text \<open>
  \<open>performs P toolCall x\<close>: the invocation \<open>x\<close> is the one that the entry \<open>toolCall\<close> of
  \<^verbatim>\<open>tool_calls\<close> asks for. Then the event of its call, the tool turn and the record.
\<close>

definition performs :: "platform \<Rightarrow> jsval \<Rightarrow> invocation \<Rightarrow> bool" where
  "performs P toolCall x \<longleftrightarrow>
     requested_call P toolCall = Inr (inv_name x, inv_arguments x) \<and>
     get_prop toolCall ''id'' = Inr (inv_id x) \<and>
     result_text P (inv_result x) = Inr (inv_text x)"

definition call_event :: "invocation \<Rightarrow> event" where
  "call_event x = CallTool (call_request (inv_name x) (inv_arguments x)) (Inr (inv_result x))"

definition turn_of :: "invocation \<Rightarrow> jsval" where
  "turn_of x = tool_turn (inv_id x) (inv_name x) (inv_text x)"

definition record_of :: "invocation \<Rightarrow> jsval" where
  "record_of x = tool_record (inv_name x) (inv_arguments x) (inv_text x)"


section \<open>The data model of the specification\<close>

text \<open>
  A ToolDescriptor as the specification describes it: a name, a description and an input
  schema, the last two possibly missing. \<open>descriptor_value\<close> is the JavaScript object of a
  descriptor (a missing field is an absent property), and \<open>spec_function_declaration\<close> is the
  function declaration the specification asks for: name, description and schema unchanged,
  the empty string for a missing description, the empty object for a missing schema.
\<close>

record tool_descriptor =
  td_name :: string
  td_description :: "string option"
  td_inputSchema :: "(string \<times> jsval) list option"

definition descriptor_value :: "tool_descriptor \<Rightarrow> jsval" where
  "descriptor_value d =
     JObj ([(''name'', JStr (td_name d))]
           @ (case td_description d of None \<Rightarrow> [] | Some t \<Rightarrow> [(''description'', JStr t)])
           @ (case td_inputSchema d of None \<Rightarrow> [] | Some kvs \<Rightarrow> [(''inputSchema'', JObj kvs)]))"

definition spec_function_declaration :: "tool_descriptor \<Rightarrow> jsval" where
  "spec_function_declaration d =
     JObj [(''type'', JStr ''function''),
           (''function'', JObj [
              (''name'', JStr (td_name d)),
              (''description'', JStr (case td_description d of None \<Rightarrow> [] | Some t \<Rightarrow> t)),
              (''parameters'', JObj (case td_inputSchema d of None \<Rightarrow> [] | Some kvs \<Rightarrow> kvs))])]"

section \<open>Scenarios\<close>

text \<open>
  Concrete surroundings on which the handlers are run below. Where the channel works, the
  Tool Host behind it is the one of \<^verbatim>\<open>index.js\<close>.
\<close>

text \<open>The number of requests the LLM backend has had so far.\<close>

fun requests_so_far :: "event list \<Rightarrow> nat" where
  "requests_so_far [] = 0"
| "requests_so_far (ChatCompletion req out # es) = Suc (requests_so_far es)"
| "requests_so_far (e # es) = requests_so_far es"

text \<open>The two argument texts the scripted backend uses, and a text cut short.\<close>

definition hi_text :: string where
  \<open>hi_text = ''{"message":"hi"}''\<close>

definition ho_text :: string where
  \<open>ho_text = ''{"message":"ho"}''\<close>

definition cut_text :: string where
  \<open>cut_text = ''{"message":''\<close>

text \<open>\<^verbatim>\<open>JSON.parse\<close> on the texts that occur in the scenarios.\<close>

definition parse_table :: "jsval \<Rightarrow> error + jsval" where
  "parse_table v =
     (if v = JStr hi_text then Inr (JObj [(''message'', JStr ''hi'')])
      else if v = JStr ho_text then Inr (JObj [(''message'', JStr ''ho'')])
      else if v = JStr ''{}'' then Inr (JObj [])
      else Inl (SyntaxError ''Unexpected end of JSON input''))"

text \<open>
  A platform whose channel opens (unless \<open>refused\<close>), and whose LLM backend answers its
  \<open>i\<close>-th request with the \<open>i\<close>-th completion of a script.
\<close>

definition scripted_platform :: "bool \<Rightarrow> jsval list \<Rightarrow> platform" where
  "scripted_platform refused script =
     \<lparr> process_env = [],
       dirname = ''/srv/food'',
       join = join_with ''/'',
       new_StdioClientTransport = (\<lambda>params. None),
       new_Client = (\<lambda>info opts. None),
       connect = (\<lambda>h c t. if refused then Some (Error ''spawn ENOENT'') else None),
       listTools = (\<lambda>h c. Inr list_tools),
       callTool = (\<lambda>h c req. call_tool req),
       create = (\<lambda>h req. if requests_so_far h < length script
                          then Inr (script ! requests_so_far h)
                          else Inl (Error ''429 Too Many Requests'')),
       JSON_parse = parse_table,
       JSON_stringify = (\<lambda>v. JUndefined),
       string_gt_zero = (\<lambda>s. False) \<rparr>"

text \<open>A platform whose channel opened and then broke: every call to the Tool Host fails.\<close>

definition dropped_platform :: platform where
  "dropped_platform =
     (scripted_platform False [])
       \<lparr> listTools := (\<lambda>h c. Inl (Error ''Connection closed'')),
         callTool := (\<lambda>h c req. Inl (Error ''Connection closed'')) \<rparr>"

text \<open>A completion with one choice, and the tool invocation request of an assistant message.\<close>

definition completion_of :: "jsval \<Rightarrow> jsval" where
  "completion_of m = JObj [(''choices'', JArr [JObj [(''index'', JNum 0), (''message'', m)]])]"

definition echo_request :: "string \<Rightarrow> string \<Rightarrow> jsval" where
  "echo_request call_id arguments_text =
     JObj [(''id'', JStr call_id),
           (''type'', JStr ''function''),
           (''function'', JObj [(''name'', JStr ''echo''), (''arguments'', JStr arguments_text)])]"

text \<open>What the catalog of \<^verbatim>\<open>index.js\<close> translates to, and turns of the scenarios.\<close>

definition echo_declaration :: jsval where
  "echo_declaration =
     JObj [(''type'', JStr ''function''),
           (''function'', JObj [
              (''name'', JStr ''echo''),
              (''description'', JStr ''Echo back the input message''),
              (''parameters'', JObj [
                 (''type'', JStr ''object''),
                 (''properties'', JObj [
                    (''message'', JObj [
                       (''type'', JStr ''string''),
                       (''description'', JStr ''The message to echo back'')])]),
                 (''required'', JArr [JStr ''message''])])])]"

definition user_turn :: "string \<Rightarrow> jsval" where
  "user_turn text = JObj [(''role'', JStr ''user''), (''content'', JStr text)]"

definition plain_answer :: jsval where
  "plain_answer = JObj [(''role'', JStr ''assistant''), (''content'', JStr ''Hello!'')]"

definition hello_body :: jsval where
  "hello_body = JObj [(''message'', JStr ''Hi'')]"

definition echo_hi_body :: jsval where
  "echo_hi_body = JObj [(''message'', JStr (''Please echo '' @ [CHR 0x27] @ ''hi'' @ [CHR 0x27]))]"

definition echo_hi_turn :: jsval where
  "echo_hi_turn = user_turn (''Please echo '' @ [CHR 0x27] @ ''hi'' @ [CHR 0x27])"

definition tool_answer :: "jsval list \<Rightarrow> jsval" where
  "tool_answer tcs =
     JObj [(''role'', JStr ''assistant''), (''content'', JNull), (''tool_calls'', JArr tcs)]"

definition final_answer :: jsval where
  "final_answer =
     JObj [(''role'', JStr ''assistant''), (''content'', JStr ''The message was echoed: hi'')]"

definition echo_result :: "string \<Rightarrow> jsval" where
  "echo_result text =
     JObj [(''content'', JArr [JObj [(''type'', JStr ''text''), (''text'', JStr text)]])]"

text \<open>
  The backend asks for one echo of \<^verbatim>\<open>hi\<close>; for one echo with an argument text cut short; for
  an echo of \<^verbatim>\<open>hi\<close> and then one of \<^verbatim>\<open>ho\<close>.
\<close>

definition one_call_platform :: platform where
  "one_call_platform =
     scripted_platform False
       [completion_of (tool_answer [echo_request ''call_1'' hi_text]), completion_of final_answer]"

definition cut_call_platform :: platform where
  "cut_call_platform =
     scripted_platform False
       [completion_of (tool_answer [echo_request ''call_1'' cut_text]), completion_of final_answer]"



section \<open>Properties of the Tool Host\<close>

lemma catalog_names_eq: "catalog_names = [JStr ''echo'']"
  by (simp add: catalog_names_def list_tools_def)

text \<open>
  C1. For every string \<open>s\<close>, the call operation with name \<^verbatim>\<open>echo\<close> and arguments
  \<^verbatim>\<open>{message: s}\<close> succeeds, and its result holds exactly one content block, of type text,
  whose text is \<^verbatim>\<open>Echo: \<close> followed by \<open>s\<close> unchanged.
\<close>

theorem echo_returns_prefixed_message:
  "call_tool (JObj [(''name'', JStr ''echo''), (''arguments'', JObj [(''message'', JStr s)])])
     = Inr (JObj [(''content'', JArr [
              JObj [(''type'', JStr ''text''), (''text'', JStr (''Echo: '' @ s))]])])"
  by (simp add: call_tool_def destructure_def)

text \<open>
  The scenario of the specification: the request \<^verbatim>\<open>{message: "hello world"}\<close> to the echo
  capability through \<^verbatim>\<open>POST /api/tools/call\<close>.
\<close>

theorem echo_returns_prefixed_message_witness:
  "fst (tools_call_handler (scripted_platform False []) initial_state
          (JObj [(''name'', JStr ''echo''),
                 (''arguments'', JObj [(''message'', JStr ''hello world'')])]))
     = Response 200 (JObj [(''content'', JArr [
                  JObj [(''type'', JStr ''text''), (''text'', JStr ''Echo: hello world'')]])])"
  using echo_returns_prefixed_message [of "''hello world''"]
  by (simp add: tools_call_handler_def respond_def tools_call_body_def destructure_def
        ensure_client_def initMCPClient_def Let_def client_callTool_def call_request_def
        scripted_platform_def initial_state_def js_or_def)

text \<open>
  C2. The specification asks that an echo call whose arguments lack \<^verbatim>\<open>message\<close> fail with an
  "invalid arguments" error. The handler does not check: with the arguments \<^verbatim>\<open>{}\<close> it succeeds
  and answers the rendering of \<^verbatim>\<open>undefined\<close>.
\<close>

theorem echo_without_message_succeeds:
  "call_tool (JObj [(''name'', JStr ''echo''), (''arguments'', JObj [])])
     = Inr (JObj [(''content'', JArr [
              JObj [(''type'', JStr ''text''), (''text'', JStr ''Echo: undefined'')]])])"
  by (simp add: call_tool_def destructure_def)

text \<open>
  C3. For every name that is not in the catalog, and whatever the arguments, the call
  operation fails with an error whose message is \<^verbatim>\<open>Unknown tool: \<close> followed by the name.
\<close>

theorem unknown_tool_rejected:
  assumes "JStr n \<notin> set catalog_names"
  shows "call_tool (JObj [(''name'', JStr n), (''arguments'', args)])
           = Inl (Error (''Unknown tool: '' @ n))"
  using assms by (simp add: catalog_names_eq call_tool_def destructure_def)

theorem unknown_tool_rejected_witness:
  "JStr ''add'' \<notin> set catalog_names \<and>
   call_tool (JObj [(''name'', JStr ''add''), (''arguments'', JObj [(''a'', JNum 1)])])
     = Inl (Error ''Unknown tool: add'')"
  using unknown_tool_rejected [of "''add''" "JObj [(''a'', JNum 1)]"]
  by (simp add: catalog_names_eq)

section \<open>Properties of the Bridge Service\<close>

subsection \<open>Health\<close>

lemma OPENAI_API_KEY_configured:
  "truthy (OPENAI_API_KEY P) \<and> OPENAI_API_KEY P \<noteq> JStr []"
  by (simp add: OPENAI_API_KEY_def js_or_def split: option.splits)

text \<open>
  C7. The specification asks that the health check report \<^verbatim>\<open>openaiConfigured: false\<close> when
  the environment holds no API key. With an environment that has no \<^verbatim>\<open>OPENAI_API_KEY\<close> the
  key is the placeholder \<^verbatim>\<open>"None"\<close>, a non-empty string, and the handler reports \<^verbatim>\<open>true\<close>.
\<close>

theorem health_without_key_reports_configured:
  "health_handler (P\<lparr>process_env := []\<rparr>) s =
     Response 200 (JObj [(''status'', JStr ''ok''),
                         (''connected'', JBool (mcpClient s \<noteq> None)),
                         (''openaiConfigured'', JBool True)])"
  by (simp add: health_handler_def OPENAI_API_KEY_def js_or_def)

subsection \<open>Catalog translation\<close>

lemma convert_tool_descriptor:
  "convert_tool (descriptor_value d) = Inr (spec_function_declaration d)"
  by (simp add: convert_tool_def descriptor_value_def spec_function_declaration_def js_or_def
           split: option.splits)

lemma map_result_map:
  "(\<And>x. f (h x) = Inr (g x)) \<Longrightarrow> map_result f (map h xs) = Inr (map g xs)"
  by (induction xs) simp_all

text \<open>
  C8. On the catalog of any list of descriptors the translation succeeds, and its result is,
  element by element and in the same order, the function declaration of the specification:
  name, description and schema unchanged, the empty string for a missing description and
  the empty object for a missing schema.
\<close>

theorem catalog_translation_elementwise:
  "convertMCPToolsToOpenAI (JObj [(''tools'', JArr (map descriptor_value ds))])
     = Inr (map spec_function_declaration ds)"
  by (simp add: convertMCPToolsToOpenAI_def map_result_map convert_tool_descriptor)

subsection \<open>What a handler adds to the trace\<close>

lemma new_events_append [simp]: "trace s' = trace s @ es \<Longrightarrow> new_events s s' = es"
  by (simp add: new_events_def)

lemma calls_append [simp]: "calls (xs @ ys) = calls xs @ calls ys"
  by (induction xs rule: calls.induct) simp_all

lemma tool_requests_append [simp]:
  "tool_requests (xs @ ys) = tool_requests xs @ tool_requests ys"
  by (induction xs rule: tool_requests.induct) simp_all

lemma initMCPClient_trace:
  assumes "initMCPClient P s = (r, s')"
  shows "\<exists>es. trace s' = trace s @ es \<and> calls es = []"
  using assms
  by (auto simp: initMCPClient_def Let_def split: option.splits)

lemma initMCPClient_ok:
  assumes "initMCPClient P s = (Inr u, s')"
  shows "mcpClient s' \<noteq> None"
  using assms
  by (auto simp: initMCPClient_def Let_def split: option.splits)

lemma ensure_client_trace:
  assumes "ensure_client P s = (r, s')"
  shows "\<exists>es. trace s' = trace s @ es \<and> calls es = []"
  using assms initMCPClient_trace [of P s r s']
  by (auto simp: ensure_client_def split: option.splits)

lemma ensure_client_ok:
  assumes "ensure_client P s = (Inr u, s')"
  shows "mcpClient s' \<noteq> None"
  using assms initMCPClient_ok [of P s u s']
  by (auto simp: ensure_client_def split: option.splits)

lemma client_callTool_some:
  assumes "mcpClient s = Some c"
  shows "client_callTool P s req =
           (callTool P (trace s) c req,
            s\<lparr>trace := trace s @ [CallTool req (callTool P (trace s) c req)]\<rparr>)"
  using assms by (simp add: client_callTool_def Let_def)

subsection \<open>Single tool calls over HTTP\<close>

text \<open>
  C10. When the body of a \<^verbatim>\<open>POST /api/tools/call\<close> request has no \<^verbatim>\<open>arguments\<close> field, or a
  falsy one, and the client is there (it existed, or \<^verbatim>\<open>initMCPClient\<close> succeeded), the handler
  makes exactly one call to the Tool Host, with the name of the body and the arguments
  \<^verbatim>\<open>{}\<close>, and answers with the outcome of that call.
\<close>

theorem tools_call_forwards_empty_arguments:
  assumes "get_prop body ''arguments'' = Inr args"
      and "\<not> truthy args"
      and "fst (ensure_client P s) = Inr ()"
  shows "\<exists>name out.
           get_prop body ''name'' = Inr name \<and>
           calls (new_events s (snd (tools_call_handler P s body)))
             = [CallTool (JObj [(''name'', name), (''arguments'', JObj [])]) out] \<and>
           fst (tools_call_handler P s body)
             = (case out of Inr result \<Rightarrow> Response 200 result
                | Inl e \<Rightarrow> Response 500 (JObj [(''error'', JStr (message e))]))"
proof -
  from assms(1) have nn: "body \<noteq> JUndefined" "body \<noteq> JNull"
    by auto
  then obtain name where name: "get_prop body ''name'' = Inr name"
    by (cases body) simp_all
  obtain s1 where s1: "ensure_client P s = (Inr (), s1)"
    using assms(3) by (cases "ensure_client P s") simp
  from ensure_client_trace [OF s1] obtain es
    where es: "trace s1 = trace s @ es" "calls es = []" by blast
  from ensure_client_ok [OF s1] obtain c where c: "mcpClient s1 = Some c" by blast
  let ?req = "call_request name (JObj [])"
  let ?out = "callTool P (trace s1) c ?req"
  have body: "tools_call_body P s body =
                (?out, s1\<lparr>trace := trace s1 @ [CallTool ?req ?out]\<rparr>)"
    using nn name assms(1,2) s1 c
    by (simp add: tools_call_body_def destructure_def js_or_def client_callTool_some)
  have "calls (new_events s (snd (tools_call_handler P s body))) = [CallTool ?req ?out]"
    using body es by (cases ?out) (simp_all add: tools_call_handler_def respond_def)
  moreover have "fst (tools_call_handler P s body)
             = (case ?out of Inr result \<Rightarrow> Response 200 result
                | Inl e \<Rightarrow> Response 500 (JObj [(''error'', JStr (message e))]))"
    using body by (cases ?out) (simp_all add: tools_call_handler_def respond_def)
  ultimately show ?thesis
    using name by (auto simp: call_request_def)
qed

theorem tools_call_forwards_empty_arguments_witness:
  "get_prop (JObj [(''name'', JStr ''echo'')]) ''arguments'' = Inr JUndefined \<and>
   \<not> truthy JUndefined \<and>
   fst (ensure_client (scripted_platform False []) initial_state) = Inr () \<and>
   calls (new_events initial_state
           (snd (tools_call_handler (scripted_platform False []) initial_state
                   (JObj [(''name'', JStr ''echo'')]))))
     = [CallTool (JObj [(''name'', JStr ''echo''), (''arguments'', JObj [])])
          (Inr (JObj [(''content'', JArr [
                  JObj [(''type'', JStr ''text''), (''text'', JStr ''Echo: undefined'')]])]))] \<and>
   fst (tools_call_handler (scripted_platform False []) initial_state
          (JObj [(''name'', JStr ''echo'')]))
     = Response 200 (JObj [(''content'', JArr [
                  JObj [(''type'', JStr ''text''), (''text'', JStr ''Echo: undefined'')]])])"
  using tools_call_forwards_empty_arguments
          [of "JObj [(''name'', JStr ''echo'')]" JUndefined "scripted_platform False []" initial_state]
  by (simp add: tools_call_handler_def respond_def tools_call_body_def destructure_def
        ensure_client_def initMCPClient_def Let_def client_callTool_def call_request_def
        call_tool_def scripted_platform_def initial_state_def new_events_def js_or_def)


subsection \<open>Chat exchanges\<close>

lemma client_listTools_trace:
  assumes "client_listTools P s = (r, s')"
  shows "\<exists>es. trace s' = trace s @ es \<and> calls es = []"
  using assms by (auto simp: client_listTools_def Let_def split: option.splits)

lemma chat_prepare_trace:
  assumes "chat_prepare P s body = (r, s')"
  shows "\<exists>es. trace s' = trace s @ es \<and> calls es = []"
proof -
  { fix s1 s2 r1 r2
    assume a: "ensure_client P s = (r1, s1)" and b: "client_listTools P s1 = (r2, s2)"
    from ensure_client_trace [OF a] client_listTools_trace [OF b]
    have "\<exists>es. trace s2 = trace s @ es \<and> calls es = []" by auto }
  note both = this
  show ?thesis
    using assms ensure_client_trace [of P s] both
    by (auto simp: chat_prepare_def Let_def split: sum.splits prod.splits) 
qed

lemma openai_create_eq:
  "openai_create P s req =
     (create P (trace s) req, s\<lparr>trace := trace s @ [ChatCompletion req (create P (trace s) req)]\<rparr>)"
  by (simp add: openai_create_def Let_def)

lemma client_callTool_trace:
  assumes "client_callTool P s req = (r, s')"
  shows "\<exists>es. trace s' = trace s @ es"
  using assms by (auto simp: client_callTool_def Let_def split: option.splits)

lemma tool_round_trace:
  assumes "tool_round P s tc = (r, s')"
  shows "\<exists>es. trace s' = trace s @ es"
  using assms client_callTool_trace [of P s]
  by (auto simp: tool_round_def split: sum.splits prod.splits)

lemma tool_loop_trace:
  assumes "tool_loop P s tcs trs recs = (r, s')"
  shows "\<exists>es. trace s' = trace s @ es"
  using assms
proof (induction tcs arbitrary: s trs recs)
  case Nil
  then show ?case by simp
next
  case (Cons tc tcs)
  obtain r1 s1 where r1: "tool_round P s tc = (r1, s1)" by (cases "tool_round P s tc")
  from tool_round_trace [OF r1] obtain es1 where es1: "trace s1 = trace s @ es1" by blast
  show ?case
  proof (cases r1)
    case (Inl e)
    with Cons.prems r1 es1 show ?thesis by auto
  next
    case (Inr p)
    obtain turn rec where p: "p = (turn, rec)" by (cases p)
    from Cons.prems r1 Inr p
    have "tool_loop P s1 tcs (trs @ [turn]) (recs @ [rec]) = (r, s')" by simp
    from Cons.IH [OF this] es1 show ?thesis by auto
  qed
qed

lemma chat_respond_trace:
  assumes "chat_respond P s msgs c = (r, s')"
  shows "\<exists>es. trace s' = trace s @ es"
proof -
  { fix tcs r1 s1 assume "tool_loop P s tcs [] [] = (r1, s1)"
    from tool_loop_trace [OF this] have "\<exists>es. trace s1 = trace s @ es" . }
  note loop = this
  show ?thesis
    using assms 
    apply (simp add: chat_respond_def openai_create_eq split: sum.splits prod.splits if_splits)
    apply (auto dest!: loop)
    done
qed

lemma tool_requests_calls: "tool_requests (calls es) = tool_requests es"
  by (induction es rule: calls.induct) simp_all

lemma chat_decompose:
  assumes h: "chat_handler P s body = (resp, s')"
      and first: "calls (new_events s s') = ChatCompletion req (Inr c) # rest"
  shows "\<exists>msgs fns s2 r.
           req = first_request msgs fns \<and>
           chat_respond P s2 msgs c = (r, s') \<and>
           respond (r, s') = (resp, s') \<and>
           rest = calls (new_events s2 s')"
proof -
  obtain r0 s1 where prep: "chat_prepare P s body = (r0, s1)"
    by (cases "chat_prepare P s body")
  from chat_prepare_trace [OF prep] obtain es1
    where es1: "trace s1 = trace s @ es1" "calls es1 = []" by blast
  show ?thesis
  proof (cases r0)
    case (Inl e)
    with h prep have "s' = s1"
      by (simp add: chat_handler_def chat_body_def respond_def)
    with es1 first show ?thesis by simp
  next
    case (Inr p)
    obtain msgs fns where p: "p = (msgs, fns)" by (cases p)
    let ?req = "first_request msgs fns"
    let ?out = "create P (trace s1) ?req"
    let ?s2 = "s1\<lparr>trace := trace s1 @ [ChatCompletion ?req ?out]\<rparr>"
    have s2: "trace ?s2 = trace s @ es1 @ [ChatCompletion ?req ?out]"
      using es1 by simp
    show ?thesis
    proof (cases ?out)
      case (Inl e)
      with h prep Inr p have "s' = ?s2"
        by (simp add: chat_handler_def chat_body_def respond_def openai_create_eq)
      with s2 have "new_events s s' = es1 @ [ChatCompletion ?req ?out]"
        by (simp add: new_events_def)
      with first es1 have "?out = Inr c" by auto
      with Inl show ?thesis by simp
    next
      case out: (Inr c')
      obtain r where r: "chat_respond P ?s2 msgs c' = (r, snd (chat_respond P ?s2 msgs c'))"
        by (cases "chat_respond P ?s2 msgs c'") simp
      from h prep Inr p out
      have h': "respond (chat_respond P ?s2 msgs c') = (resp, s')"
        by (simp add: chat_handler_def chat_body_def openai_create_eq)
      then have snd_eq: "snd (chat_respond P ?s2 msgs c') = s'"
        by (cases "chat_respond P ?s2 msgs c'"; cases "fst (chat_respond P ?s2 msgs c')")
           (simp_all add: respond_def)
      with r have r': "chat_respond P ?s2 msgs c' = (r, s')" by simp
      from chat_respond_trace [OF r'] obtain es3 where es3: "trace s' = trace ?s2 @ es3"
        by blast
      with s2 have "trace s' = trace s @ (es1 @ [ChatCompletion ?req ?out] @ es3)" by simp
      then have "new_events s s' = es1 @ [ChatCompletion ?req ?out] @ es3"
        by (rule new_events_append)
      with first es1 have eq: "ChatCompletion ?req ?out # calls es3 = ChatCompletion req (Inr c) # rest"
        by auto
      with out have "req = ?req" "c' = c" "rest = calls es3" by auto
      moreover have "new_events ?s2 s' = es3" using es3 by (rule new_events_append)
      ultimately show ?thesis using r' h' by auto
    qed
  qed
qed

text \<open>Unfolding the handlers and the scenarios, for running them on concrete input.\<close>

lemmas handler_defs =
  chat_handler_def chat_body_def chat_prepare_def chat_respond_def respond_def
  destructure_def ensure_client_def initMCPClient_def client_listTools_def client_callTool_def
  openai_create_def first_request_def follow_up_request_def first_message_def
  convertMCPToolsToOpenAI_def convert_tool_def tool_round_def requested_call_def result_text_def
  call_request_def tool_turn_def tool_record_def js_or_def new_events_def Let_def

lemmas scenario_defs =
  scripted_platform_def initial_state_def list_tools_def call_tool_def parse_table_def
  completion_of_def echo_request_def hi_text_def ho_text_def cut_text_def

text \<open>
  C4. Take a chat exchange whose first call to the LLM backend returned a completion with a
  first message that has no tool invocation requests (\<^verbatim>\<open>tool_calls\<close> absent, \<^verbatim>\<open>null\<close> or
  empty). Then the handler answers 200 with \<^verbatim>\<open>content\<close> the content of that message (the
  empty string when the content is falsy, so exactly the text when it is a string), with
  \<^verbatim>\<open>toolCalls\<close> empty, and the exchange made no further call: none to the Tool Host's call
  operation, none to the LLM backend.
\<close>

theorem chat_without_tool_use:
  assumes "chat_handler P s body = (resp, s')"
      and "calls (new_events s s') = ChatCompletion req (Inr completion) # rest"
      and "first_message completion = Inr m"
      and "get_prop m ''content'' = Inr content"
      and "get_prop m ''tool_calls'' = Inr tcs"
      and "tcs = JUndefined \<or> tcs = JNull \<or> tcs = JArr []"
  shows "resp = Response 200 (JObj [(''content'', js_or content (JStr [])), (''toolCalls'', JArr [])])
         \<and> rest = []
         \<and> tool_requests (new_events s s') = []
         \<and> (\<forall>t. content = JStr t \<longrightarrow> js_or content (JStr []) = JStr t)"
proof -
  from chat_decompose [OF assms(1,2)] obtain msgs fns s2 r
    where d: "chat_respond P s2 msgs completion = (r, s')" "respond (r, s') = (resp, s')"
             "rest = calls (new_events s2 s')"
    by blast
  from assms(3-6)
  have "chat_respond P s2 msgs completion =
          (Inr (JObj [(''content'', js_or content (JStr [])), (''toolCalls'', JArr [])]), s2)"
    by (auto simp: chat_respond_def)
  with d have "s' = s2" "resp = Response 200 (JObj [(''content'', js_or content (JStr [])), (''toolCalls'', JArr [])])"
    by (auto simp: respond_def)
  moreover from this d have "rest = []" by (simp add: new_events_def)
  moreover from this assms(2) have "tool_requests (new_events s s') = []"
    using tool_requests_calls [of "new_events s s'"] by simp
  moreover have "\<forall>t. content = JStr t \<longrightarrow> js_or content (JStr []) = JStr t"
    by (simp add: js_or_def)
  ultimately show ?thesis by blast
qed

theorem chat_without_tool_use_witness:
  "calls (new_events initial_state
            (snd (chat_handler (scripted_platform False [completion_of plain_answer])
                    initial_state hello_body)))
     = [ChatCompletion (first_request [system_turn, user_turn ''Hi''] [echo_declaration])
          (Inr (completion_of plain_answer))] \<and>
   first_message (completion_of plain_answer) = Inr plain_answer \<and>
   get_prop plain_answer ''content'' = Inr (JStr ''Hello!'') \<and>
   get_prop plain_answer ''tool_calls'' = Inr JUndefined \<and>
   fst (chat_handler (scripted_platform False [completion_of plain_answer])
          initial_state hello_body)
     = Response 200 (JObj [(''content'', JStr ''Hello!''), (''toolCalls'', JArr [])])"
  using chat_without_tool_use
          [of "scripted_platform False [completion_of plain_answer]" initial_state hello_body
              "fst (chat_handler (scripted_platform False [completion_of plain_answer])
                      initial_state hello_body)"
              "snd (chat_handler (scripted_platform False [completion_of plain_answer])
                      initial_state hello_body)"
              "first_request [system_turn, user_turn ''Hi''] [echo_declaration]"
              "completion_of plain_answer" "[]" plain_answer "JStr ''Hello!''" JUndefined]
  by (simp add: handler_defs scenario_defs plain_answer_def hello_body_def user_turn_def
        echo_declaration_def)

lemma calls_call_events [simp]: "calls (map call_event xs) = map call_event xs"
  by (induction xs) (simp_all add: call_event_def)

lemma tool_requests_call_events [simp]:
  "tool_requests (map call_event xs)
     = map (\<lambda>x. call_request (inv_name x) (inv_arguments x)) xs"
  by (induction xs) (simp_all add: call_event_def)

lemma client_callTool_ok:
  assumes "client_callTool P s req = (Inr result, s')"
  shows "trace s' = trace s @ [CallTool req (Inr result)]"
  using assms by (auto simp: client_callTool_def Let_def split: option.splits)

lemma tool_round_ok:
  assumes "tool_round P s toolCall = (Inr (turn, rec), s')"
  shows "\<exists>x. performs P toolCall x \<and> trace s' = trace s @ [call_event x] \<and>
             turn = turn_of x \<and> rec = record_of x"
proof -
  from assms obtain toolName toolArgs toolResult resultText tool_call_id
    where rq: "requested_call P toolCall = Inr (toolName, toolArgs)"
      and ct: "client_callTool P s (call_request toolName toolArgs) = (Inr toolResult, s')"
      and rt: "result_text P toolResult = Inr resultText"
      and id: "get_prop toolCall ''id'' = Inr tool_call_id"
      and tr: "turn = tool_turn tool_call_id toolName resultText"
              "rec = tool_record toolName toolArgs resultText"
    by (auto simp: tool_round_def split: sum.splits prod.splits)
  let ?x = "\<lparr> inv_id = tool_call_id, inv_name = toolName, inv_arguments = toolArgs,
              inv_result = toolResult, inv_text = resultText \<rparr>"
  have "performs P toolCall ?x" using rq id rt by (simp add: performs_def)
  moreover have "trace s' = trace s @ [call_event ?x]"
    using client_callTool_ok [OF ct] by (simp add: call_event_def)
  moreover have "turn = turn_of ?x" "rec = record_of ?x"
    using tr by (simp_all add: turn_of_def record_of_def)
  ultimately show ?thesis by blast
qed

lemma tool_loop_ok:
  assumes "tool_loop P s tcs trs recs = (Inr (trs', recs'), s')"
  shows "\<exists>xs. list_all2 (performs P) tcs xs \<and>
              trace s' = trace s @ map call_event xs \<and>
              trs' = trs @ map turn_of xs \<and>
              recs' = recs @ map record_of xs"
  using assms
proof (induction tcs arbitrary: s trs recs)
  case Nil
  then show ?case by simp
next
  case (Cons tc tcs)
  obtain r1 s1 where r1: "tool_round P s tc = (r1, s1)" by (cases "tool_round P s tc")
  show ?case
  proof (cases r1)
    case (Inl e)
    with Cons.prems r1 show ?thesis by simp
  next
    case (Inr p)
    obtain turn rec where p: "p = (turn, rec)" by (cases p)
    from r1 Inr p have round: "tool_round P s tc = (Inr (turn, rec), s1)" by simp
    from tool_round_ok [OF round] obtain x
      where x: "performs P tc x" "trace s1 = trace s @ [call_event x]"
               "turn = turn_of x" "rec = record_of x" by blast
    from Cons.prems round
    have "tool_loop P s1 tcs (trs @ [turn]) (recs @ [rec]) = (Inr (trs', recs'), s')" by simp
    from Cons.IH [OF this] obtain xs
      where xs: "list_all2 (performs P) tcs xs" "trace s' = trace s1 @ map call_event xs"
                "trs' = (trs @ [turn]) @ map turn_of xs" "recs' = (recs @ [rec]) @ map record_of xs"
      by blast
    have "list_all2 (performs P) (tc # tcs) (x # xs)" using x(1) xs(1) by simp
    moreover have "trace s' = trace s @ map call_event (x # xs)" using x(2) xs(2) by simp
    moreover have "trs' = trs @ map turn_of (x # xs)" using x(3) xs(3) by simp
    moreover have "recs' = recs @ map record_of (x # xs)" using x(4) xs(4) by simp
    ultimately show ?thesis by blast
  qed
qed

lemma respond_200:
  assumes "respond (r, s) = (Response 200 answer, s')"
  shows "r = Inr answer"
  using assms by (cases r) (simp_all add: respond_def)

lemma truthy_nonempty_array:
  "tcs \<noteq> [] \<Longrightarrow> truthy (JArr tcs) \<and>
     (case get_prop (JArr tcs) ''length'' of Inl e \<Rightarrow> False | Inr n \<Rightarrow> js_gt_zero P n)"
  by simp

lemma chat_respond_ok:
  assumes run: "chat_respond P s msgs c = (Inr answer, s')"
      and m: "first_message c = Inr m"
      and tcs: "get_prop m ''tool_calls'' = Inr (JArr tcs)" "tcs \<noteq> []"
  shows "\<exists>xs followUp.
           list_all2 (performs P) tcs xs \<and>
           trace s' = trace s @ map call_event xs
                        @ [ChatCompletion (follow_up_request (msgs @ [m] @ map turn_of xs))
                             (Inr followUp)] \<and>
           get_prop answer ''toolCalls'' = Inr (JArr (map record_of xs))"
proof -
  from tcs(1) obtain content where content: "get_prop m ''content'' = Inr content"
    by (cases m) simp_all
  from run m content tcs truthy_nonempty_array [OF tcs(2), of P]
  obtain trs recs s1 where loop: "tool_loop P s tcs [] [] = (Inr (trs, recs), s1)"
    and rest: "(case openai_create P s1 (follow_up_request (msgs @ [m] @ trs)) of
             (Inl e, s2) \<Rightarrow> (Inl e, s2)
           | (Inr followUpCompletion, s2) \<Rightarrow>
          (case first_message followUpCompletion of Inl e \<Rightarrow> (Inl e, s2) | Inr m \<Rightarrow>
          (case get_prop m ''content'' of Inl e \<Rightarrow> (Inl e, s2) | Inr c \<Rightarrow>
             (Inr (JObj [(''content'', js_or c (js_or content (JStr []))),
                         (''toolCalls'', JArr recs)]), s2)))) = (Inr answer, s')"
    by (auto simp: chat_respond_def split: sum.splits prod.splits)
  from tool_loop_ok [OF loop] obtain xs
    where xs: "list_all2 (performs P) tcs xs" "trace s1 = trace s @ map call_event xs"
              "trs = map turn_of xs" "recs = map record_of xs" by auto
  let ?req = "follow_up_request (msgs @ [m] @ trs)"
  from rest obtain followUp where fu: "create P (trace s1) ?req = Inr followUp"
    and s': "s' = s1\<lparr>trace := trace s1 @ [ChatCompletion ?req (Inr followUp)]\<rparr>"
    and ans: "get_prop answer ''toolCalls'' = Inr (JArr recs)"
    by (auto simp: openai_create_eq split: sum.splits)
  from xs s' ans show ?thesis by auto
qed





text \<open>
  C5, amended. Take a chat exchange that answers 200 and whose first call to the LLM backend
  returned a completion with exactly one tool invocation request. Then the head of the round
  gave a name and parsed arguments; after the first completion the exchange made exactly one
  call to the Tool Host, with that name and those arguments, which returned a result, and
  then exactly one more call to the LLM backend, nothing else; and \<^verbatim>\<open>toolCalls\<close> in the answer
  is the one record of that name, those arguments, and the text taken from that result.
\<close>

theorem chat_with_one_tool_call:
  assumes "chat_handler P s body = (Response 200 answer, s')"
      and "calls (new_events s s') = ChatCompletion req (Inr completion) # rest"
      and "first_message completion = Inr m"
      and "get_prop m ''tool_calls'' = Inr (JArr [toolCall])"
  shows "\<exists>toolName toolArgs toolResult resultText req2 followUp.
           requested_call P toolCall = Inr (toolName, toolArgs) \<and>
           rest = [CallTool (JObj [(''name'', toolName), (''arguments'', toolArgs)]) (Inr toolResult),
                   ChatCompletion req2 (Inr followUp)] \<and>
           result_text P toolResult = Inr resultText \<and>
           get_prop answer ''toolCalls''
             = Inr (JArr [JObj [(''name'', toolName), (''arguments'', toolArgs),
                                (''result'', resultText)]])"
proof -
  from chat_decompose [OF assms(1,2)] obtain msgs fns s2 r
    where d: "chat_respond P s2 msgs completion = (r, s')"
             "respond (r, s') = (Response 200 answer, s')" "rest = calls (new_events s2 s')"
    by blast
  from d(2) have "r = Inr answer" by (rule respond_200)
  with d(1) have "chat_respond P s2 msgs completion = (Inr answer, s')" by simp
  from chat_respond_ok [OF this assms(3,4)] obtain xs followUp
    where xs: "list_all2 (performs P) [toolCall] xs"
          "trace s' = trace s2 @ map call_event xs
                      @ [ChatCompletion (follow_up_request (msgs @ [m] @ map turn_of xs))
                           (Inr followUp)]"
          "get_prop answer ''toolCalls'' = Inr (JArr (map record_of xs))"
    by blast
  from xs(1) obtain x where x: "xs = [x]" "performs P toolCall x"
    by (auto simp: list_all2_Cons1)
  from xs(2) x(1) d(3)
  have "rest = [call_event x,
                ChatCompletion (follow_up_request (msgs @ [m] @ [turn_of x])) (Inr followUp)]"
    by (simp add: call_event_def)
  with x xs(3) show ?thesis
    by (auto simp: performs_def call_event_def record_of_def call_request_def tool_record_def)
qed

text \<open>The scenario of the specification: a request to echo \<^verbatim>\<open>hi\<close>.\<close>

theorem chat_with_one_tool_call_witness:
  "fst (chat_handler one_call_platform initial_state echo_hi_body)
     = Response 200 (JObj [
         (''content'', JStr ''The message was echoed: hi''),
         (''toolCalls'', JArr [
            JObj [(''name'', JStr ''echo''),
                  (''arguments'', JObj [(''message'', JStr ''hi'')]),
                  (''result'', JStr ''Echo: hi'')]])]) \<and>
   calls (new_events initial_state (snd (chat_handler one_call_platform initial_state echo_hi_body)))
     = [ChatCompletion (first_request [system_turn, echo_hi_turn] [echo_declaration])
          (Inr (completion_of (tool_answer [echo_request ''call_1'' hi_text]))),
        CallTool (JObj [(''name'', JStr ''echo''), (''arguments'', JObj [(''message'', JStr ''hi'')])])
          (Inr (echo_result ''Echo: hi'')),
        ChatCompletion
          (follow_up_request
             [system_turn, echo_hi_turn, tool_answer [echo_request ''call_1'' hi_text],
              tool_turn (JStr ''call_1'') (JStr ''echo'') (JStr ''Echo: hi'')])
          (Inr (completion_of final_answer))] \<and>
   first_message (completion_of (tool_answer [echo_request ''call_1'' hi_text]))
     = Inr (tool_answer [echo_request ''call_1'' hi_text]) \<and>
   get_prop (tool_answer [echo_request ''call_1'' hi_text]) ''tool_calls''
     = Inr (JArr [echo_request ''call_1'' hi_text])"
  using chat_with_one_tool_call
          [of one_call_platform initial_state echo_hi_body
              "JObj [
                 (''content'', JStr ''The message was echoed: hi''),
                 (''toolCalls'', JArr [
                    JObj [(''name'', JStr ''echo''),
                          (''arguments'', JObj [(''message'', JStr ''hi'')]),
                          (''result'', JStr ''Echo: hi'')]])]"
              "snd (chat_handler one_call_platform initial_state echo_hi_body)"
              "first_request [system_turn, echo_hi_turn] [echo_declaration]"
              "completion_of (tool_answer [echo_request ''call_1'' hi_text])"
              "[CallTool (JObj [(''name'', JStr ''echo''),
                                (''arguments'', JObj [(''message'', JStr ''hi'')])])
                  (Inr (echo_result ''Echo: hi'')),
                ChatCompletion
                  (follow_up_request
                     [system_turn, echo_hi_turn, tool_answer [echo_request ''call_1'' hi_text],
                      tool_turn (JStr ''call_1'') (JStr ''echo'') (JStr ''Echo: hi'')])
                  (Inr (completion_of final_answer))]"
              "tool_answer [echo_request ''call_1'' hi_text]"
              "echo_request ''call_1'' hi_text"]
  by (simp add: handler_defs scenario_defs one_call_platform_def echo_hi_body_def
        echo_hi_turn_def user_turn_def tool_answer_def final_answer_def echo_result_def
        echo_declaration_def)

text \<open>
  Without the condition that the exchange answers 200 the statement fails. Here the first
  completion asks for one invocation whose argument text is cut short: \<^verbatim>\<open>JSON.parse\<close> throws,
  no call to the Tool Host and no second call to the LLM backend follow, and the answer is
  500 with the message of the error, without \<^verbatim>\<open>toolCalls\<close>.
\<close>

theorem chat_with_one_tool_call_counterexample:
  "first_message (completion_of (tool_answer [echo_request ''call_1'' cut_text]))
     = Inr (tool_answer [echo_request ''call_1'' cut_text]) \<and>
   get_prop (tool_answer [echo_request ''call_1'' cut_text]) ''tool_calls''
     = Inr (JArr [echo_request ''call_1'' cut_text]) \<and>
   calls (new_events initial_state (snd (chat_handler cut_call_platform initial_state echo_hi_body)))
     = [ChatCompletion (first_request [system_turn, echo_hi_turn] [echo_declaration])
          (Inr (completion_of (tool_answer [echo_request ''call_1'' cut_text])))] \<and>
   fst (chat_handler cut_call_platform initial_state echo_hi_body)
     = Response 500 (JObj [(''error'', JStr ''Unexpected end of JSON input'')])"
  by (simp add: handler_defs scenario_defs cut_call_platform_def echo_hi_body_def
        echo_hi_turn_def user_turn_def tool_answer_def final_answer_def
        echo_declaration_def)



subsection \<open>The connected flag\<close>

lemma initMCPClient_split:
  "initMCPClient P s =
     (case construct_client P s of
        (Inl e, s1) \<Rightarrow> (Inl e, s1)
      | (Inr (c, t), s2) \<Rightarrow> await_connect P s2 c t)"
  by (simp add: initMCPClient_def construct_client_def await_connect_def Let_def
           split: option.splits)

lemma health_handler_eq: "health_handler P s = health_answer (mcpClient s \<noteq> None)"
  using OPENAI_API_KEY_configured [of P]
  by (simp add: health_handler_def health_answer_def)

lemma mcpClient_after_init:
  "mcpClient (snd (initMCPClient P s)) =
     (if new_StdioClientTransport P (transport_params P) = None \<and>
         new_Client P client_info client_options = None
      then Some (Client client_info client_options) else mcpClient s)"
  by (simp add: initMCPClient_def Let_def split: option.splits)

lemma initMCPClient_keeps:
  "mcpClient s \<noteq> None \<Longrightarrow> mcpClient (snd (initMCPClient P s)) \<noteq> None"
  by (simp add: mcpClient_after_init)

lemma client_listTools_client:
  "client_listTools P s = (r, s') \<Longrightarrow> mcpClient s' = mcpClient s"
  by (auto simp: client_listTools_def Let_def split: option.splits)

lemma client_callTool_client:
  "client_callTool P s req = (r, s') \<Longrightarrow> mcpClient s' = mcpClient s"
  by (auto simp: client_callTool_def Let_def split: option.splits)

lemma tool_round_client:
  "tool_round P s tc = (r, s') \<Longrightarrow> mcpClient s' = mcpClient s"
  by (auto simp: tool_round_def split: sum.splits prod.splits dest: client_callTool_client)

lemma tool_loop_client:
  "tool_loop P s tcs trs recs = (r, s') \<Longrightarrow> mcpClient s' = mcpClient s"
proof (induction tcs arbitrary: s trs recs)
  case Nil
  then show ?case by simp
next
  case (Cons tc tcs)
  obtain r1 s1 where r1: "tool_round P s tc = (r1, s1)" by (cases "tool_round P s tc")
  from tool_round_client [OF r1] have s1: "mcpClient s1 = mcpClient s" .
  show ?case
  proof (cases r1)
    case (Inl e)
    with Cons.prems r1 s1 show ?thesis by simp
  next
    case (Inr p)
    obtain turn rec where "p = (turn, rec)" by (cases p)
    with Cons.prems r1 Inr
    have "tool_loop P s1 tcs (trs @ [turn]) (recs @ [rec]) = (r, s')" by simp
    from Cons.IH [OF this] s1 show ?thesis by simp
  qed
qed

lemma chat_respond_client:
  "chat_respond P s msgs c = (r, s') \<Longrightarrow> mcpClient s' = mcpClient s"
  by (auto simp: chat_respond_def openai_create_eq split: sum.splits prod.splits if_splits
           dest: tool_loop_client)

lemma respond_snd: "snd (respond r) = snd r"
  by (cases r; cases "fst r") (auto simp: respond_def)

lemma ensure_client_there:
  "mcpClient s \<noteq> None \<Longrightarrow> ensure_client P s = (Inr (), s)"
  by (auto simp: ensure_client_def)

lemma chat_prepare_client:
  assumes "mcpClient s \<noteq> None" "chat_prepare P s body = (r, s')"
  shows "mcpClient s' = mcpClient s"
  using assms(2) ensure_client_there [OF assms(1), of P]
  by (auto simp: chat_prepare_def Let_def split: sum.splits prod.splits
           dest: client_listTools_client)

lemma chat_handler_client:
  assumes "mcpClient s \<noteq> None"
  shows "mcpClient (snd (chat_handler P s body)) = mcpClient s"
proof -
  obtain r0 s1 where prep: "chat_prepare P s body = (r0, s1)" by (cases "chat_prepare P s body")
  from chat_prepare_client [OF assms prep] have s1: "mcpClient s1 = mcpClient s" .
  obtain r s' where b: "chat_body P s body = (r, s')" by (cases "chat_body P s body")
  with prep s1 have "mcpClient s' = mcpClient s"
    by (auto simp: chat_body_def openai_create_eq split: sum.splits prod.splits
             dest: chat_respond_client)
  with b show ?thesis by (simp add: chat_handler_def respond_snd)
qed

lemma tools_call_handler_client:
  assumes "mcpClient s \<noteq> None"
  shows "mcpClient (snd (tools_call_handler P s body)) = mcpClient s"
proof -
  obtain r s' where b: "tools_call_body P s body = (r, s')" by (cases "tools_call_body P s body")
  with ensure_client_there [OF assms, of P] have "mcpClient s' = mcpClient s"
    by (auto simp: tools_call_body_def split: sum.splits dest: client_callTool_client)
  with b show ?thesis by (simp add: tools_call_handler_def respond_snd)
qed

lemma tools_handler_client:
  assumes "mcpClient s \<noteq> None"
  shows "mcpClient (snd (tools_handler P s)) = mcpClient s"
proof -
  obtain r s' where b: "tools_body P s = (r, s')" by (cases "tools_body P s")
  with ensure_client_there [OF assms, of P] have "mcpClient s' = mcpClient s"
    by (auto simp: tools_body_def dest: client_listTools_client)
  with b show ?thesis by (simp add: tools_handler_def respond_snd)
qed

lemma handle_client:
  assumes "mcpClient s \<noteq> None"
  shows "mcpClient (snd (handle P s r)) = mcpClient s"
  using assms
  by (cases r) (simp_all add: tools_handler_client tools_call_handler_client chat_handler_client)

lemma serve_client:
  "mcpClient s \<noteq> None \<Longrightarrow> mcpClient (snd (serve P s reqs)) = mcpClient s"
proof (induction reqs arbitrary: s)
  case Nil
  show ?case by simp
next
  case (Cons r reqs)
  obtain resp s1 where h: "handle P s r = (resp, s1)" by (cases "handle P s r")
  with handle_client [OF Cons.prems, of P r] have s1: "mcpClient s1 = mcpClient s" by simp
  with Cons.prems Cons.IH [of s1] h show ?case
    by (auto split: prod.splits)
qed

lemma serve_length: "length (fst (serve P s reqs)) = length reqs"
proof (induction reqs arbitrary: s)
  case Nil
  show ?case by simp
next
  case (Cons r reqs)
  obtain resp s1 where h: "handle P s r = (resp, s1)" by (cases "handle P s r")
  obtain resps s2 where t: "serve P s1 reqs = (resps, s2)" by (cases "serve P s1 reqs")
  from Cons.IH [of s1] t have "length resps = length reqs" by simp
  with h t show ?case by simp
qed

lemma serve_health:
  assumes "mcpClient s \<noteq> None" "i < length reqs" "reqs ! i = GetHealth"
  shows "fst (serve P s reqs) ! i = health_answer True"
  using assms
proof (induction reqs arbitrary: s i)
  case Nil
  then show ?case by simp
next
  case (Cons r reqs)
  obtain resp s1 where h: "handle P s r = (resp, s1)" by (cases "handle P s r")
  with handle_client [OF Cons.prems(1), of P r] Cons.prems(1) have s1: "mcpClient s1 \<noteq> None"
    by simp
  show ?case
  proof (cases i)
    case 0
    with Cons.prems h show ?thesis
      by (auto simp: health_handler_eq split: prod.splits)
  next
    case (Suc j)
    with Cons.prems have "j < length reqs" "reqs ! j = GetHealth" by simp_all
    from Cons.IH [OF s1 this] h Suc show ?thesis
      by (auto split: prod.splits)
  qed
qed


lemma construct_client_ok:
  assumes "construct_client P s = (Inr (c, t), s')"
  shows "mcpClient s' \<noteq> None"
  using assms by (auto simp: construct_client_def Let_def split: option.splits)

lemma await_connect_client:
  "await_connect P s c t = (r, s') \<Longrightarrow> mcpClient s' = mcpClient s"
  by (auto simp: await_connect_def Let_def split: option.splits)

lemma service_health:
  assumes i: "i < length (early @ late)" and h: "(early @ late) ! i = GetHealth"
  shows "service P early late ! i = None \<or> service P early late ! i = Some (health_answer True)"
proof -
  obtain r0 s0 where cc: "construct_client P initial_state = (r0, s0)"
    by (cases "construct_client P initial_state")
  show ?thesis
  proof (cases r0)
    case (Inl e)
    with cc have "service P early late = map (\<lambda>r. None) (early @ late)"
      by (simp add: service_def start_up_def)
    with i have "service P early late ! i = None"
      by (simp only: nth_map)
    then show ?thesis by simp
  next
    case (Inr p)
    obtain c t where p: "p = (c, t)" by (cases p)
    from cc Inr p have cc': "construct_client P initial_state = (Inr (c, t), s0)" by simp
    from construct_client_ok [OF cc'] have s0: "mcpClient s0 \<noteq> None" .
    obtain resps s3 where sv: "serve P s0 early = (resps, s3)" by (cases "serve P s0 early")
    from serve_client [OF s0, of P early] sv s0 have s3: "mcpClient s3 \<noteq> None" by simp
    from serve_length [of P s0 early] sv have len: "length resps = length early" by simp
    obtain r4 s4 where ac: "await_connect P s3 c t = (r4, s4)"
      by (cases "await_connect P s3 c t")
    from await_connect_client [OF ac] s3 have s4: "mcpClient s4 \<noteq> None" by simp
    show ?thesis
    proof (cases "i < length early")
      case True
      with h have "early ! i = GetHealth" by (simp add: nth_append)
      from serve_health [OF s0 True this, of P] sv have "resps ! i = health_answer True" by simp
      moreover have "service P early late ! i = Some (resps ! i)"
        using cc' sv ac True len
        by (cases r4) (simp_all add: service_def start_up_def nth_append)
      ultimately show ?thesis by simp
    next
      case False
      let ?j = "i - length early"
      from False i h have j: "?j < length late" "late ! ?j = GetHealth"
        by (auto simp: nth_append)
      show ?thesis
      proof (cases r4)
        case (Inl e)
        with cc' sv ac False len j(1) have "service P early late ! i = None"
          by (simp add: service_def start_up_def nth_append)
        then show ?thesis by simp
      next
        case (Inr u)
        from serve_health [OF s4 j, of P] serve_length [of P s4 late]
        have "map Some (fst (serve P s4 late)) ! ?j = Some (health_answer True)"
          using j(1) by simp
        with Inr cc' sv ac False len have "service P early late ! i = Some (health_answer True)"
          by (simp add: service_def start_up_def nth_append)
        then show ?thesis by simp
      qed
    qed
  qed
qed

lemma service_after_failed_start:
  assumes "fst (initMCPClient P initial_state) = Inl e"
  shows "service P [] late = map (\<lambda>r. None) late"
  using assms
  by (auto simp: initMCPClient_split service_def start_up_def split: sum.splits prod.splits)

text \<open>
  C9, amended. The \<^verbatim>\<open>connected\<close> flag of the health check is whether a client object has been
  constructed: it is false while \<^verbatim>\<open>mcpClient\<close> is \<^verbatim>\<open>null\<close>; after an invocation of
  \<^verbatim>\<open>initMCPClient\<close> it is true if the invocation constructed the client object (or one
  existed), whatever \<^verbatim>\<open>connect\<close> did; and from such an invocation on it stays true through
  any further requests. So it records that initialization was attempted, not that the
  channel is live. In the service, every health check that is answered reports
  \<^verbatim>\<open>connected: true\<close>, those answered while \<^verbatim>\<open>connect\<close> is awaited included; and when the
  invocation of the start throws, no request after it is answered.
\<close>

theorem connected_flag_records_client_construction:
  "health_handler P s = health_answer (mcpClient s \<noteq> None) \<and>
   health_handler P (snd (initMCPClient P s))
     = health_answer (mcpClient s \<noteq> None \<or>
                      (new_StdioClientTransport P (transport_params P) = None \<and>
                       new_Client P client_info client_options = None)) \<and>
   (new_StdioClientTransport P (transport_params P) = None \<and>
    new_Client P client_info client_options = None \<longrightarrow>
      health_handler P (snd (serve P (snd (initMCPClient P s)) reqs)) = health_answer True) \<and>
   (\<forall>i < length (early @ late). (early @ late) ! i = GetHealth \<longrightarrow>
      service P early late ! i = None \<or> service P early late ! i = Some (health_answer True)) \<and>
   (\<forall>e. fst (initMCPClient P initial_state) = Inl e \<longrightarrow>
      service P [] late = map (\<lambda>r. None) late)"
proof -
  have a: "health_handler P s = health_answer (mcpClient s \<noteq> None)"
    by (rule health_handler_eq)
  have b: "health_handler P (snd (initMCPClient P s))
     = health_answer (mcpClient s \<noteq> None \<or>
                      (new_StdioClientTransport P (transport_params P) = None \<and>
                       new_Client P client_info client_options = None))"
    by (auto simp: health_handler_eq mcpClient_after_init)
  have c: "health_handler P (snd (serve P (snd (initMCPClient P s)) reqs)) = health_answer True"
    if "new_StdioClientTransport P (transport_params P) = None \<and>
        new_Client P client_info client_options = None"
  proof -
    from that have "mcpClient (snd (initMCPClient P s)) \<noteq> None"
      by (simp add: mcpClient_after_init)
    from serve_client [OF this, of P reqs] this show ?thesis
      by (simp add: health_handler_eq)
  qed
  from a b c service_health [of _ early late P] service_after_failed_start [of P _ late]
  show ?thesis by blast
qed

text \<open>
  The channel is refused: the flag is false in the module as loaded and true after
  \<^verbatim>\<open>initMCPClient\<close> has thrown; the service answers a health check with \<^verbatim>\<open>connected: true\<close>
  while \<^verbatim>\<open>connect\<close> is awaited, and none after. The channel opened and broke: the tool call
  fails and the health check still answers \<^verbatim>\<open>connected: true\<close>.
\<close>

theorem connected_flag_records_client_construction_witness:
  "health_handler (scripted_platform True []) initial_state = health_answer False \<and>
   new_StdioClientTransport (scripted_platform True [])
     (transport_params (scripted_platform True [])) = None \<and>
   new_Client (scripted_platform True []) client_info client_options = None \<and>
   fst (initMCPClient (scripted_platform True []) initial_state) = Inl (Error ''spawn ENOENT'') \<and>
   health_handler (scripted_platform True [])
     (snd (serve (scripted_platform True [])
             (snd (initMCPClient (scripted_platform True []) initial_state)) [GetTools, GetHealth]))
     = health_answer True \<and>
   service (scripted_platform True []) [GetHealth] [GetHealth]
     = [Some (health_answer True), None] \<and>
   service dropped_platform []
       [PostToolsCall (JObj [(''name'', JStr ''echo''),
                             (''arguments'', JObj [(''message'', JStr ''hi'')])]),
        GetHealth]
     = [Some (Response 500 (JObj [(''error'', JStr ''Connection closed'')])),
        Some (health_answer True)]"
  using connected_flag_records_client_construction
          [of "scripted_platform True []" initial_state "[GetTools, GetHealth]"
              "[GetHealth]" "[GetHealth]"]
  by (simp add: service_def start_up_def construct_client_def await_connect_def
        health_handler_def health_answer_def OPENAI_API_KEY_def initMCPClient_def
        tools_handler_def tools_body_def client_listTools_def
        tools_call_handler_def tools_call_body_def respond_def destructure_def
        ensure_client_def client_callTool_def call_request_def js_or_def Let_def
        dropped_platform_def scripted_platform_def initial_state_def)

text \<open>
  As first stated, the flag would be reported true after any invocation that constructed
  the client, also when its \<^verbatim>\<open>connect\<close> failed. The invocation of the start constructs the
  client; when its \<^verbatim>\<open>connect\<close> fails the process ends, and a health check after it has no
  answer.
\<close>

theorem connected_after_failed_connect_counterexample:
  "new_StdioClientTransport (scripted_platform True [])
     (transport_params (scripted_platform True [])) = None \<and>
   new_Client (scripted_platform True []) client_info client_options = None \<and>
   fst (initMCPClient (scripted_platform True []) initial_state) = Inl (Error ''spawn ENOENT'') \<and>
   service (scripted_platform True []) [] [GetHealth] = [None]"
  by (simp add: service_def start_up_def construct_client_def await_connect_def
        initMCPClient_def Let_def scripted_platform_def initial_state_def)

end
